theory Spec2Isabelle
  imports Complex_Main "HOL-Library.Multiset"
begin

section \<open>Numbers, strings and errors\<close>

text \<open>
  The library computes on numpy \<^verbatim>\<open>float64\<close> arrays. A float is modelled by the
  real number it stands for: rounding, infinities and NaN are outside the model, so every
  statement below is about finite values and exact arithmetic. Python \<^verbatim>\<open>str\<close>
  values are modelled as \<^typ>\<open>string\<close>, a non-ASCII code point by its UTF-8 bytes.

  Every failure of the modelled code is a Python \<^verbatim>\<open>ValueError\<close>; the model
  keeps one \<open>message\<close> per \<^verbatim>\<open>raise\<close> statement, with the values the
  source interpolates into the text as arguments.
\<close>

datatype Objective = MIN_obj | MAX_obj

text \<open>
  \<^verbatim>\<open>class Objective(enum.Enum): MIN = -1; MAX = 1\<close>. The names \<open>MIN\<close> and
  \<open>MAX\<close> are binders of HOL, hence the suffix. The underscore members of the class
  (\<^verbatim>\<open>_MIN_STR\<close>, \<^verbatim>\<open>_MAX_STR\<close>, \<^verbatim>\<open>_MIN_ALIASES\<close>,
  \<^verbatim>\<open>_MAX_ALIASES\<close>) only hold the constants below and are never handed out as
  objectives.
\<close>

fun value_of :: "Objective \<Rightarrow> int" where
  "value_of MIN_obj = - 1"
| "value_of MAX_obj = 1"


text \<open>\<^verbatim>\<open>_MIN_STR = "\u25bc"\<close> and \<^verbatim>\<open>_MAX_STR = "\u25b2"\<close>: the down-pointing and the
  up-pointing black triangle, in UTF-8.\<close>

definition MIN_STR :: string where
  "MIN_STR = [CHR 0xE2, CHR 0x96, CHR 0xBC]"

definition MAX_STR :: string where
  "MAX_STR = [CHR 0xE2, CHR 0x96, CHR 0xB2]"

text \<open>
  The callables that the alias sets name, and any other callable. In numpy
  \<^verbatim>\<open>np.max\<close> and \<^verbatim>\<open>np.amax\<close> are one object, as are
  \<^verbatim>\<open>np.min\<close> and \<^verbatim>\<open>np.amin\<close>; the alias sets list both names.
\<close>

datatype callable =
    Builtin_max | Np_max | Np_nanmax | Np_amax
  | Builtin_min | Np_min | Np_nanmin | Np_amin
  | Other_callable string

text \<open>
  What a caller may hand in as an objective: an \<open>Objective\<close>, a string, a number
  (Python compares and hashes \<^verbatim>\<open>1\<close>, \<^verbatim>\<open>1.0\<close> and \<^verbatim>\<open>True\<close>
  alike, so one constructor stands for them), a callable, or some other hashable object.
\<close>

datatype objective_alias =
    Alias_objective Objective
  | Alias_str string
  | Alias_num real
  | Alias_callable callable
  | Alias_other nat

datatype message =
    Invalid_criteria_objective objective_alias
  | Objectives_weights_columns nat nat nat
  | Mtx_ndim nat
  | Mtx_inhomogeneous
  | Anames_elements nat
  | Cnames_elements nat
  | WSM_minimize_objective
  | WPM_minimize_objective
  | WPM_values_le_zero

datatype error = ValueError message | TypeError | IndexError

text \<open>
  The error taxonomy of the specification, section 7, read off the message: which of the
  specification's error names a \<^verbatim>\<open>ValueError\<close> of the code stands for.
\<close>

datatype error_kind = InvalidObjective | InvalidShape | InvalidValue

fun kind_of :: "message \<Rightarrow> error_kind" where
  "kind_of (Invalid_criteria_objective a) = InvalidObjective"
| "kind_of (Objectives_weights_columns c n m) = InvalidShape"
| "kind_of (Mtx_ndim d) = InvalidShape"
| "kind_of Mtx_inhomogeneous = InvalidShape"
| "kind_of (Anames_elements a) = InvalidShape"
| "kind_of (Cnames_elements c) = InvalidShape"
| "kind_of WSM_minimize_objective = InvalidValue"
| "kind_of WPM_minimize_objective = InvalidValue"
| "kind_of WPM_values_le_zero = InvalidValue"

section \<open>Objective resolution\<close>



text \<open>
  The two frozensets. Inside the class body \<^verbatim>\<open>MAX\<close> and \<^verbatim>\<open>MIN\<close> are still
  the plain integers \<^verbatim>\<open>1\<close> and \<^verbatim>\<open>-1\<close>.
\<close>

definition MAX_ALIASES :: "objective_alias list" where
  "MAX_ALIASES =
     [Alias_num 1, Alias_str MAX_STR,
      Alias_callable Builtin_max, Alias_callable Np_max,
      Alias_callable Np_nanmax, Alias_callable Np_amax,
      Alias_str ''max'', Alias_str ''maximize'', Alias_str ''+'', Alias_str ''>'']"

definition MIN_ALIASES :: "objective_alias list" where
  "MIN_ALIASES =
     [Alias_num (- 1), Alias_str MIN_STR,
      Alias_callable Builtin_min, Alias_callable Np_min,
      Alias_callable Np_nanmin, Alias_callable Np_amin,
      Alias_str ''min'', Alias_str ''minimize'', Alias_str ''<'', Alias_str ''-'']"





section \<open>The decision matrix\<close>

text \<open>
  A pandas \<^verbatim>\<open>DataFrame\<close> of floats: the row labels, the column labels and the
  rows of values. \<^verbatim>\<open>np.shape\<close> of it is the pair of the two label counts.
\<close>

record dataframe =
  df_index :: "string list"
  df_columns :: "string list"
  df_values :: "real list list"



text \<open>
  The attrs class \<^verbatim>\<open>DecisionMatrix\<close> with its three private attributes
  \<^verbatim>\<open>_data_df\<close>, \<^verbatim>\<open>_objectives\<close> and \<^verbatim>\<open>_weights\<close>.
\<close>

record DecisionMatrix =
  priv_data_df :: dataframe
  priv_objectives :: "Objective list"
  priv_weights :: "real list"












text \<open>The read-only properties.\<close>

definition anames :: "DecisionMatrix \<Rightarrow> string list" where
  "anames dm = df_index (priv_data_df dm)"


definition mtx :: "DecisionMatrix \<Rightarrow> real list list" where
  "mtx dm = df_values (priv_data_df dm)"

definition weights :: "DecisionMatrix \<Rightarrow> real list" where
  "weights dm = priv_weights dm"

definition objectives_values :: "DecisionMatrix \<Rightarrow> int list" where
  "objectives_values dm = map value_of (priv_objectives dm)"

definition objectives :: "DecisionMatrix \<Rightarrow> Objective list" where
  "objectives dm = priv_objectives dm"


text \<open>
  \<^verbatim>\<open>to_dataframe\<close>: \<^verbatim>\<open>np.vstack\<close> puts the objectives and the weights above the
  matrix, which makes an array of objects, so a cell is an objective or a float.
\<close>

datatype cell = Cell_objective Objective | Cell_float real



text \<open>
  Reading such a table back with the factory, as the round trip of the specification does:
  row 0 is given as the objectives, row 1 as the weights, the rows below as the matrix, and
  the labels as the names. This step is not a function of the repository. A weight or a
  matrix cell that holds an objective cannot become a float (\<^verbatim>\<open>TypeError\<close>); a
  table of fewer than two rows has no row 1 (\<^verbatim>\<open>IndexError\<close>).
\<close>

fun cell_alias :: "cell \<Rightarrow> objective_alias" where
  "cell_alias (Cell_objective ob) = Alias_objective ob"
| "cell_alias (Cell_float x) = Alias_num x"





text \<open>
  \<^verbatim>\<open>DecisionMatrix.__eq__\<close>. \<^verbatim>\<open>DataFrame.equals\<close> compares the two label
  axes and then the cells; \<^verbatim>\<open>np.array_equal\<close> compares the lengths and then the
  elements. The other operand is any Python object.
\<close>

datatype operand =
    Operand_dm DecisionMatrix
  | Operand_dataframe dataframe
  | Operand_objective Objective
  | Operand_num real
  | Operand_str string
  | Operand_none




section \<open>Ranking\<close>

text \<open>
  Modelled from the spec: \<^verbatim>\<open>rank.rank_values\<close> of \<^verbatim>\<open>skcriteria.utils\<close> is
  imported by the ranking module but is not among the sources. Sections 3 and 4.4 of the
  specification describe it: the scores are put in order by a stable sort, descending
  when \<open>reverse\<close> is set and ascending otherwise, equal scores keep the order of the
  alternatives, and the rank of an alternative is its place in that order, counted from 1.
  A stable descending sort is the stable ascending sort of the negated scores.
\<close>

definition argsort_stable :: "real list \<Rightarrow> nat list" where
  "argsort_stable keys = sort_key (\<lambda>i. keys ! i) [0..<length keys]"

fun index_of :: "'a list \<Rightarrow> 'a \<Rightarrow> nat" where
  "index_of [] x = 0"
| "index_of (y # ys) x = (if x = y then 0 else Suc (index_of ys x))"

definition rank_values :: "real list \<Rightarrow> bool \<Rightarrow> nat list" where
  "rank_values arr reverse =
     (let keys = (if reverse then map uminus arr else arr);
          order = argsort_stable keys
      in map (\<lambda>i. Suc (index_of order i)) [0..<length arr])"

text \<open>
  \<^verbatim>\<open>np.inner\<close> of a row and the weights. The ranking functions are only called on
  the attributes of a decision matrix, where every row has as many entries as there are
  weights; numpy raises on other shapes, which the model does not follow.
\<close>

definition inner :: "real list \<Rightarrow> real list \<Rightarrow> real" where
  "inner xs ys = sum_list (map2 (*) xs ys)"

text \<open>
  \<^verbatim>\<open>wsm\<close>: \<^verbatim>\<open>np.inner(matrix, weights)\<close> is one inner product per row, and
  \<^verbatim>\<open>np.squeeze\<close> leaves the values of a one-dimensional array as they are.
\<close>

definition wsm :: "real list list \<Rightarrow> real list \<Rightarrow> nat list \<times> real list" where
  "wsm matrix ws =
     (let rank_mtx = map (\<lambda>row. inner row ws) matrix;
          score = rank_mtx
      in (rank_values score True, score))"

text \<open>\<^verbatim>\<open>wpm\<close>: the logarithms, times the weights column by column, summed by row.\<close>

definition wpm :: "real list list \<Rightarrow> real list \<Rightarrow> nat list \<times> real list" where
  "wpm matrix ws =
     (let lmtx = map (map (log 10)) matrix;
          rank_mtx = map (\<lambda>row. map2 (*) row ws) lmtx;
          score = map sum_list rank_mtx
      in (rank_values score True, score))"

text \<open>
  The two \<^verbatim>\<open>_evaluate_data\<close> methods; \<open>objectives\<close> holds the codes
  \<open>1\<close> and \<open>-1\<close>, and the extra values are a dictionary with the one key \<open>score\<close>.
\<close>

definition WeightedSumModel_evaluate_data ::
  "real list list \<Rightarrow> real list \<Rightarrow> int list \<Rightarrow> error + nat list \<times> (string \<times> real list) list" where
  "WeightedSumModel_evaluate_data matrix ws objs =
     (if value_of MIN_obj \<in> set objs then Inl (ValueError WSM_minimize_objective)
      else (let (rank, score) = wsm matrix ws in Inr (rank, [(''score'', score)])))"

definition WeightedProductModel_evaluate_data ::
  "real list list \<Rightarrow> real list \<Rightarrow> int list \<Rightarrow> error + nat list \<times> (string \<times> real list) list" where
  "WeightedProductModel_evaluate_data matrix ws objs =
     (if value_of MIN_obj \<in> set objs then Inl (ValueError WPM_minimize_objective)
      else if list_ex (\<lambda>row. list_ex (\<lambda>x. x \<le> 0) row) matrix
      then Inl (ValueError WPM_values_le_zero)
      else (let (rank, score) = wpm matrix ws in Inr (rank, [(''score'', score)])))"

text \<open>
  Modelled from the spec: the class \<^verbatim>\<open>RankResult\<close> is imported from
  \<^verbatim>\<open>skcriteria.core\<close>, which is not among the sources. Section 3 of the
  specification gives its attributes: the method name, the alternative labels, the ranks
  aligned with them, and the extra values.
\<close>

record RankResult =
  method_rr :: string
  alternatives_rr :: "string list"
  values_rr :: "nat list"
  extra_rr :: "(string \<times> real list) list"

definition WeightedSumModel_make_result ::
  "string list \<Rightarrow> nat list \<Rightarrow> (string \<times> real list) list \<Rightarrow> RankResult" where
  "WeightedSumModel_make_result alts vals ext =
     \<lparr>method_rr = ''WeightedSumModel'', alternatives_rr = alts, values_rr = vals,
      extra_rr = ext\<rparr>"

definition WeightedProductModel_make_result ::
  "string list \<Rightarrow> nat list \<Rightarrow> (string \<times> real list) list \<Rightarrow> RankResult" where
  "WeightedProductModel_make_result alts vals ext =
     \<lparr>method_rr = ''WeightedProductModel'', alternatives_rr = alts, values_rr = vals,
      extra_rr = ext\<rparr>"

text \<open>
  Modelled from the spec: the base class \<^verbatim>\<open>SKCDecisionMakerABC\<close> with the rank
  operation is imported from \<^verbatim>\<open>skcriteria.core\<close>, which is not among the sources.
  Section 4.4 of the specification gives the operation: it takes the matrix, the weights
  and the objective codes out of the decision matrix, hands them to the method's
  \<^verbatim>\<open>_evaluate_data\<close>, and wraps the ranks and the extra values with the alternative
  labels by the method's \<^verbatim>\<open>_make_result\<close>.
\<close>

definition decision_maker_rank ::
  "(real list list \<Rightarrow> real list \<Rightarrow> int list \<Rightarrow> error + nat list \<times> (string \<times> real list) list)
     \<Rightarrow> (string list \<Rightarrow> nat list \<Rightarrow> (string \<times> real list) list \<Rightarrow> RankResult)
     \<Rightarrow> DecisionMatrix \<Rightarrow> error + RankResult" where
  "decision_maker_rank evaluate_data make_result dm =
     (case evaluate_data (mtx dm) (weights dm) (objectives_values dm) of
        Inl e \<Rightarrow> Inl e
      | Inr (vals, ext) \<Rightarrow> Inr (make_result (anames dm) vals ext))"

definition WeightedSumModel_rank :: "DecisionMatrix \<Rightarrow> error + RankResult" where
  "WeightedSumModel_rank =
     decision_maker_rank WeightedSumModel_evaluate_data WeightedSumModel_make_result"

definition WeightedProductModel_rank :: "DecisionMatrix \<Rightarrow> error + RankResult" where
  "WeightedProductModel_rank =
     decision_maker_rank WeightedProductModel_evaluate_data WeightedProductModel_make_result"



text \<open>
  Two small decision matrices on which the results below are instantiated: two
  alternatives on two maximised criteria, and the same table with the second criterion
  minimised.
\<close>

definition dm_max :: DecisionMatrix where
  "dm_max =
     \<lparr>priv_data_df = \<lparr>df_index = [''A0'', ''A1''], df_columns = [''C0'', ''C1''],
                      df_values = [[1, 10], [10, 1]]\<rparr>,
      priv_objectives = [MAX_obj, MAX_obj], priv_weights = [1, 2]\<rparr>"

definition dm_min :: DecisionMatrix where
  "dm_min = dm_max\<lparr>priv_objectives := [MAX_obj, MIN_obj]\<rparr>"

section \<open>Results about objective resolution\<close>

lemma is_objective_cases:
  "(\<exists>ob. a = Alias_objective ob) \<or> (\<forall>ob. a \<noteq> Alias_objective ob)"
  by blast


lemma aliases_disjoint: "set MAX_ALIASES \<inter> set MIN_ALIASES = {}"
  by (simp add: MAX_ALIASES_def MIN_ALIASES_def MAX_STR_def MIN_STR_def)





section \<open>Results about the objective guard of the two models\<close>

lemma value_of_MIN_iff: "value_of MIN_obj \<in> set (map value_of obs) \<longleftrightarrow> MIN_obj \<in> set obs"
proof (induction obs)
  case Nil
  show ?case by simp
next
  case (Cons ob obs)
  then show ?case by (cases ob) simp_all
qed

text \<open>
  C3. On a decision matrix with a \<open>MIN\<close> objective the rank operation of the weighted
  sum model and that of the weighted product model both fail, each with its
  invalid-value error; no result is produced.
\<close>

theorem rank_fails_on_MIN:
  assumes "MIN_obj \<in> set (objectives dm)"
  shows "WeightedSumModel_rank dm = Inl (ValueError WSM_minimize_objective)
    \<and> WeightedProductModel_rank dm = Inl (ValueError WPM_minimize_objective)
    \<and> kind_of WSM_minimize_objective = InvalidValue
    \<and> kind_of WPM_minimize_objective = InvalidValue"
proof -
  have m: "value_of MIN_obj \<in> set (objectives_values dm)"
    using assms unfolding objectives_values_def objectives_def
    by (simp only: value_of_MIN_iff)
  have "WeightedSumModel_rank dm = Inl (ValueError WSM_minimize_objective)"
    unfolding WeightedSumModel_rank_def decision_maker_rank_def
      WeightedSumModel_evaluate_data_def
    using m by simp
  moreover have "WeightedProductModel_rank dm = Inl (ValueError WPM_minimize_objective)"
    unfolding WeightedProductModel_rank_def decision_maker_rank_def
      WeightedProductModel_evaluate_data_def
    using m by simp
  ultimately show ?thesis by simp
qed

theorem rank_fails_on_MIN_witness:
  "MIN_obj \<in> set (objectives dm_min)
   \<and> WeightedSumModel_rank dm_min = Inl (ValueError WSM_minimize_objective)
   \<and> WeightedProductModel_rank dm_min = Inl (ValueError WPM_minimize_objective)"
proof -
  have h: "MIN_obj \<in> set (objectives dm_min)"
    by (simp add: objectives_def dm_min_def)
  show ?thesis
    using h rank_fails_on_MIN [OF h] by simp
qed

section \<open>Results about equality\<close>





section \<open>Results about the construction of a decision matrix\<close>






















section \<open>Results about copying and the table round trip\<close>








lemma cell_alias_objectives: "map cell_alias (map Cell_objective obs) = map Alias_objective obs"
  by simp




end
